theory Spec2Isabelle
  imports Complex_Main
begin

section \<open>Python values and errors\<close>

text \<open>
  Every raise of the source is a value: a transform returns \<open>py_error + 'a\<close>, with
  \<open>Inl\<close> the exception that ends the call.
\<close>

datatype py_error = KeyError | ZeroDivisionError | ValueError | OverflowError | NotFittedError

text \<open>
  The values a \<open>labels_mapping\<close> may hold: Python integers and strings.
\<close>

datatype pyval = PyInt int | PyStr string

subsection \<open>Conversion to an integer array element\<close>

text \<open>
  \<open>np.array(index_label, dtype=np.int)\<close> converts every entry of every pair to a 64-bit
  integer (\<open>np.int\<close> is the builtin \<open>int\<close>, in the numpy releases that have the name). A
  Python integer is stored when it fits and raises OverflowError otherwise; a
  string goes through \<open>int(s)\<close>, which raises ValueError unless the string is a decimal
  literal (surrounding whitespace, one optional sign, digits with single underscores
  between them).
\<close>

definition py_isspace :: "char \<Rightarrow> bool" where
  "py_isspace c = (c \<in> set [CHR '' '', CHR 0x09, CHR 0x0A, CHR 0x0B, CHR 0x0C, CHR 0x0D])"

definition digit_val :: "char \<Rightarrow> nat option" where
  "digit_val c =
     (let n = (of_char c :: nat) in if 48 \<le> n \<and> n \<le> 57 then Some (n - 48) else None)"

fun digits_value :: "nat \<Rightarrow> bool \<Rightarrow> string \<Rightarrow> nat option" where
  "digits_value acc prev_digit [] = (if prev_digit then Some acc else None)"
| "digits_value acc prev_digit (c # cs) =
     (if c = CHR ''_'' then (if prev_digit then digits_value acc False cs else None)
      else case digit_val c of
             None \<Rightarrow> None
           | Some d \<Rightarrow> digits_value (10 * acc + d) True cs)"

definition py_strip :: "string \<Rightarrow> string" where
  "py_strip s = rev (dropWhile py_isspace (rev (dropWhile py_isspace s)))"

definition py_int_of_str :: "string \<Rightarrow> int option" where
  "py_int_of_str s =
     (case py_strip s of
        [] \<Rightarrow> None
      | c # cs \<Rightarrow>
          if c = CHR ''-'' then map_option (\<lambda>n. - int n) (digits_value 0 False cs)
          else if c = CHR ''+'' then map_option int (digits_value 0 False cs)
          else map_option int (digits_value 0 False (c # cs)))"

definition in_int64 :: "int \<Rightarrow> bool" where
  "in_int64 i = (- (2 ^ 63) \<le> i \<and> i < 2 ^ 63)"

definition int64_of_int :: "int \<Rightarrow> py_error + int" where
  "int64_of_int i = (if in_int64 i then Inr i else Inl OverflowError)"

fun np_int :: "pyval \<Rightarrow> py_error + int" where
  "np_int (PyInt i) = int64_of_int i"
| "np_int (PyStr s) =
     (case py_int_of_str s of None \<Rightarrow> Inl ValueError | Some i \<Rightarrow> int64_of_int i)"

fun np_array_int :: "(int \<times> pyval) list \<Rightarrow> py_error + (int \<times> int) list" where
  "np_array_int [] = Inr []"
| "np_array_int ((new_index, new_label) # rest) =
     (case int64_of_int new_index of
        Inl e \<Rightarrow> Inl e
      | Inr i \<Rightarrow>
          (case np_int new_label of
             Inl e \<Rightarrow> Inl e
           | Inr l \<Rightarrow>
               (case np_array_int rest of
                  Inl e \<Rightarrow> Inl e
                | Inr rows \<Rightarrow> Inr ((i, l) # rows))))"

section \<open>MarkersTransformer\<close>

text \<open>
  The constructor stores its three arguments and checks nothing. Marker values are
  modelled as integers.
\<close>

record MarkersTransformer =
  labels_mapping :: "int \<rightharpoonup> pyval"
  decimation_factor :: int
  empty_label :: int

text \<open>
  The inner loop of \<open>transform\<close>, \<open>for index, label in enumerate(markers)\<close>, with the
  running index and the list \<open>index_label\<close> built so far. The floor division comes
  before the dictionary lookup, as in the source.
\<close>

fun scan_markers ::
  "MarkersTransformer \<Rightarrow> nat \<Rightarrow> int list \<Rightarrow> (int \<times> pyval) list \<Rightarrow> py_error + (int \<times> pyval) list"
where
  "scan_markers t index [] index_label = Inr index_label"
| "scan_markers t index (label # rest) index_label =
     (if label = empty_label t then scan_markers t (Suc index) rest index_label
      else if decimation_factor t = 0 then Inl ZeroDivisionError
      else case labels_mapping t label of
             None \<Rightarrow> Inl KeyError
           | Some new_label \<Rightarrow>
               scan_markers t (Suc index) rest
                 (index_label @ [(int index div decimation_factor t, new_label)]))"

text \<open>One pass of the outer loop: scan the record, then convert the pairs.\<close>

definition markers_record :: "MarkersTransformer \<Rightarrow> int list \<Rightarrow> py_error + (int \<times> int) list" where
  "markers_record t markers =
     (case scan_markers t 0 markers [] of
        Inl e \<Rightarrow> Inl e
      | Inr index_label \<Rightarrow> np_array_int index_label)"

fun markers_loop ::
  "MarkersTransformer \<Rightarrow> int list list \<Rightarrow> (int \<times> int) list list \<Rightarrow> py_error + (int \<times> int) list list"
where
  "markers_loop t [] res = Inr res"
| "markers_loop t (markers # batch) res =
     (case markers_record t markers of
        Inl e \<Rightarrow> Inl e
      | Inr arr \<Rightarrow> markers_loop t batch (res @ [arr]))"

definition MarkersTransformer_transform ::
  "MarkersTransformer \<Rightarrow> int list list \<Rightarrow> py_error + (int \<times> int) list list" where
  "MarkersTransformer_transform t batch = markers_loop t batch []"

text \<open>
  The event list as the specification words it: the samples that differ from the empty
  label, in their original order, each with its index floor-divided by the decimation
  factor and the label \<open>lbl\<close> gives its value. \<open>k\<close> is the index of the first sample.
\<close>

definition spec_events :: "int \<Rightarrow> int \<Rightarrow> (int \<Rightarrow> 'l) \<Rightarrow> nat \<Rightarrow> int list \<Rightarrow> (int \<times> 'l) list" where
  "spec_events df emp lbl k markers =
     map (\<lambda>(i, v). (int i div df, lbl v)) (filter (\<lambda>(i, v). v \<noteq> emp) (enumerate k markers))"

section \<open>Arrays and batches\<close>

text \<open>
  Numeric array elements are rationals: they stand for the numbers the arrays hold, and the
  rounding of floating-point arithmetic is not part of the model. An array carries its
  element type, since \<open>np.empty_like\<close> copies it and an assignment converts to it.
\<close>

datatype dtype = Int64 | Float64 | Object

datatype ndarray = Arr1 "rat list" | Arr2 "rat list list"

text \<open>
  A two-dimensional array is the list of its rows, all of the same length. Its shape is
  read off the first row, so an array with no rows has shape (0, 0) here.
\<close>

fun shape :: "ndarray \<Rightarrow> nat list" where
  "shape (Arr1 xs) = [length xs]"
| "shape (Arr2 rows) = [length rows, (case rows of [] \<Rightarrow> 0 | r # _ \<Rightarrow> length r)]"

definition transpose_rows :: "rat list list \<Rightarrow> rat list list" where
  "transpose_rows rows =
     (case rows of
        [] \<Rightarrow> []
      | r # _ \<Rightarrow> map (\<lambda>j. map (\<lambda>row. row ! j) rows) [0..<length r])"

text \<open>The attribute \<open>.T\<close>: a one-dimensional array is its own transpose.\<close>

fun T :: "ndarray \<Rightarrow> ndarray" where
  "T (Arr1 xs) = Arr1 xs"
| "T (Arr2 rows) = Arr2 (transpose_rows rows)"

text \<open>
  Storing a number into an array of a given element type: an integer array keeps the
  integer part (truncation toward zero), the others keep the number.
\<close>

definition trunc :: "rat \<Rightarrow> int" where
  "trunc x = (if 0 \<le> x then \<lfloor>x\<rfloor> else \<lceil>x\<rceil>)"

fun cast :: "dtype \<Rightarrow> rat \<Rightarrow> rat" where
  "cast Int64 x = of_int (trunc x)"
| "cast Float64 x = x"
| "cast Object x = x"

fun cast_array :: "dtype \<Rightarrow> ndarray \<Rightarrow> ndarray" where
  "cast_array dt (Arr1 xs) = Arr1 (map (cast dt) xs)"
| "cast_array dt (Arr2 rows) = Arr2 (map (map (cast dt)) rows)"

text \<open>
  A batch is what a transform iterates over: an array with its element type and the list
  of its items along the first axis. A two-dimensional array has one-dimensional items
  (its rows); a three-dimensional array, or an object array of records, has
  two-dimensional items.
\<close>

record batch =
  batch_dtype :: dtype
  batch_items :: "ndarray list"

text \<open>The two forms of input that \<open>ChannellwiseScaler.transform\<close> documents.\<close>

definition single_record :: "dtype \<Rightarrow> rat list list \<Rightarrow> batch" where
  "single_record dt channels = \<lparr>batch_dtype = dt, batch_items = map Arr1 channels\<rparr>"

definition many_records :: "dtype \<Rightarrow> rat list list list \<Rightarrow> batch" where
  "many_records dt records = \<lparr>batch_dtype = dt, batch_items = map Arr2 records\<rparr>"

text \<open>Joining two batches along the first axis.\<close>

definition concatenate :: "batch \<Rightarrow> batch \<Rightarrow> batch" where
  "concatenate b1 b2 =
     \<lparr>batch_dtype = batch_dtype b1, batch_items = batch_items b1 @ batch_items b2\<rparr>"

text \<open>
  The assignment \<open>out[i] = value\<close> into an array allocated with the batch's element type
  and shape, where \<open>slot\<close> is the item of the input batch at that position. An object array
  stores the value itself. A numeric array takes a value of the slot's shape and converts
  its elements; a value of another shape is rejected here (numpy accepts one more case, a
  value that broadcasts to the slot, which the filters and scalers never return: they give
  back the shape they were given).
\<close>

definition setitem :: "dtype \<Rightarrow> ndarray \<Rightarrow> ndarray \<Rightarrow> py_error + ndarray" where
  "setitem dt slot v =
     (if dt = Object then Inr v
      else if shape v = shape slot then Inr (cast_array dt v)
      else Inl ValueError)"

section \<open>ChannellwiseScaler\<close>

text \<open>
  The wrapped scaler is an object supplied by the caller: two methods and a state that the
  methods may change. A method call gives its outcome (the value returned or the exception
  raised) and the state it leaves behind.
\<close>

record 's scaler_object =
  partial_fit :: "'s \<Rightarrow> ndarray \<Rightarrow> (py_error + unit) \<times> 's"
  scaler_transform :: "'s \<Rightarrow> ndarray \<Rightarrow> (py_error + ndarray) \<times> 's"
  state :: 's

record 's ChannellwiseScaler =
  scaler :: "'s scaler_object"

text \<open>
  \<open>fit\<close>: \<open>for signals in batch: self.scaler.partial_fit(signals.T)\<close>, then \<open>return self\<close>.
  The loop threads the scaler through the calls; an exception ends it and leaves the
  scaler as the calls so far made it.
\<close>

fun fit_loop :: "'s scaler_object \<Rightarrow> ndarray list \<Rightarrow> (py_error + unit) \<times> 's scaler_object" where
  "fit_loop sc [] = (Inr (), sc)"
| "fit_loop sc (signals # rest) =
     (case partial_fit sc (state sc) (T signals) of
        (Inl e, s') \<Rightarrow> (Inl e, sc\<lparr>state := s'\<rparr>)
      | (Inr _, s') \<Rightarrow> fit_loop (sc\<lparr>state := s'\<rparr>) rest)"

text \<open>
  A method of a transform returns its outcome and the object after the call. \<open>fit\<close> returns
  the object itself.
\<close>

definition ChannellwiseScaler_fit ::
  "'s ChannellwiseScaler \<Rightarrow> batch \<Rightarrow> (py_error + 's ChannellwiseScaler) \<times> 's ChannellwiseScaler" where
  "ChannellwiseScaler_fit self batch =
     (case fit_loop (scaler self) (batch_items batch) of
        (Inl e, sc') \<Rightarrow> (Inl e, self\<lparr>scaler := sc'\<rparr>)
      | (Inr _, sc') \<Rightarrow> (Inr (self\<lparr>scaler := sc'\<rparr>), self\<lparr>scaler := sc'\<rparr>))"

text \<open>
  \<open>transform\<close>: \<open>scaled = np.empty_like(batch)\<close>, then for every item
  \<open>scaled[i] = self.scaler.transform(signals.T).T\<close>. The list \<open>scaled\<close> holds the items
  assigned so far.
\<close>

fun transform_loop ::
  "'s scaler_object \<Rightarrow> dtype \<Rightarrow> ndarray list \<Rightarrow> ndarray list \<Rightarrow>
   (py_error + ndarray list) \<times> 's scaler_object"
where
  "transform_loop sc dt [] scaled = (Inr scaled, sc)"
| "transform_loop sc dt (signals # rest) scaled =
     (case scaler_transform sc (state sc) (T signals) of
        (Inl e, s') \<Rightarrow> (Inl e, sc\<lparr>state := s'\<rparr>)
      | (Inr y, s') \<Rightarrow>
          (case setitem dt signals (T y) of
             Inl e \<Rightarrow> (Inl e, sc\<lparr>state := s'\<rparr>)
           | Inr v \<Rightarrow> transform_loop (sc\<lparr>state := s'\<rparr>) dt rest (scaled @ [v])))"

definition ChannellwiseScaler_transform ::
  "'s ChannellwiseScaler \<Rightarrow> batch \<Rightarrow> (py_error + batch) \<times> 's ChannellwiseScaler" where
  "ChannellwiseScaler_transform self batch =
     (case transform_loop (scaler self) (batch_dtype batch) (batch_items batch) [] of
        (Inl e, sc') \<Rightarrow> (Inl e, self\<lparr>scaler := sc'\<rparr>)
      | (Inr scaled, sc') \<Rightarrow>
          (Inr \<lparr>batch_dtype = batch_dtype batch, batch_items = scaled\<rparr>, self\<lparr>scaler := sc'\<rparr>))"

subsection \<open>A concrete scaler\<close>

text \<open>
  The scalers the constructor's documentation names are those of
  \<open>sklearn.preprocessing\<close>. The one below follows \<open>MinMaxScaler\<close> with the feature range
  (0, 1): its state is the minimum and maximum seen so far of every feature (column), and
  none before the first fit. The input checks are the library's: a matrix with at least
  one sample, of the feature count seen before.
\<close>

type_synonym minmax_state = "(rat list \<times> rat list) option"

fun check_array :: "ndarray \<Rightarrow> py_error + rat list list" where
  "check_array (Arr1 xs) = Inl ValueError"
| "check_array (Arr2 rows) =
     (case rows of
        [] \<Rightarrow> Inl ValueError
      | r # _ \<Rightarrow> if r = [] then Inl ValueError else Inr rows)"

definition column_min :: "rat list list \<Rightarrow> rat list" where
  "column_min rows = foldl (map2 min) (hd rows) (tl rows)"

definition column_max :: "rat list list \<Rightarrow> rat list" where
  "column_max rows = foldl (map2 max) (hd rows) (tl rows)"

definition minmax_partial_fit :: "minmax_state \<Rightarrow> ndarray \<Rightarrow> (py_error + unit) \<times> minmax_state" where
  "minmax_partial_fit s X =
     (case check_array X of
        Inl e \<Rightarrow> (Inl e, s)
      | Inr rows \<Rightarrow>
          (case s of
             None \<Rightarrow> (Inr (), Some (column_min rows, column_max rows))
           | Some (data_min, data_max) \<Rightarrow>
               if length (hd rows) \<noteq> length data_min then (Inl ValueError, s)
               else (Inr (), Some (map2 min data_min (column_min rows),
                                    map2 max data_max (column_max rows)))))"

definition minmax_scale :: "rat \<Rightarrow> rat \<Rightarrow> rat \<Rightarrow> rat" where
  "minmax_scale lo hi x = (if hi = lo then x - lo else (x - lo) / (hi - lo))"

definition minmax_transform :: "minmax_state \<Rightarrow> ndarray \<Rightarrow> (py_error + ndarray) \<times> minmax_state" where
  "minmax_transform s X =
     (case s of
        None \<Rightarrow> (Inl NotFittedError, s)
      | Some (data_min, data_max) \<Rightarrow>
          (case check_array X of
             Inl e \<Rightarrow> (Inl e, s)
           | Inr rows \<Rightarrow>
               if length (hd rows) \<noteq> length data_min then (Inl ValueError, s)
               else (Inr (Arr2 (map (\<lambda>row. map (\<lambda>(x, lo, hi). minmax_scale lo hi x)
                                              (zip row (zip data_min data_max))) rows)), s)))"

definition MinMaxScaler :: "minmax_state scaler_object" where
  "MinMaxScaler = \<lparr>partial_fit = minmax_partial_fit, scaler_transform = minmax_transform, state = None\<rparr>"

section \<open>The signal-processing library\<close>



text \<open>
  \<open>butter lib n (low, high)\<close> is \<open>signal.butter(n, (low, high), btype="bandpass")\<close>,
  \<open>filtfilt lib (b, a) x\<close> is \<open>signal.filtfilt(b, a, x)\<close> and \<open>decimate lib x q\<close> is
  \<open>signal.decimate(x, q)\<close>.
\<close>



section \<open>The base class\<close>


section \<open>ButterFilter\<close>




section \<open>Decimator\<close>



section \<open>What the theorems ask of the library\<close>






subsection \<open>A concrete library\<close>







section \<open>Sequences of method calls\<close>


text \<open>
  An object is used through a sequence of \<open>fit\<close> and \<open>transform\<close> calls. \<open>run\<close> gives the
  object after the sequence, from the functions that give the object after one call. A
  call that raises leaves the object as its method left it, and the sequence goes on.
\<close>

datatype 'b call = Fit 'b | Transform 'b







section \<open>MarkersTransformer: the scan and the conversion\<close>

lemma scan_markers_events:
  "decimation_factor t \<noteq> 0 \<Longrightarrow>
   \<forall>v \<in> set markers. v \<noteq> empty_label t \<longrightarrow> labels_mapping t v \<noteq> None \<Longrightarrow>
   scan_markers t k markers acc =
     Inr (acc @ spec_events (decimation_factor t) (empty_label t) (\<lambda>v. the (labels_mapping t v)) k markers)"
proof (induction markers arbitrary: k acc)
  case Nil
  then show ?case by (simp add: spec_events_def)
next
  case (Cons v rest)
  then show ?case by (auto simp: spec_events_def)
qed

lemma floordiv_lower: 
  assumes "d \<noteq> 0" "0 \<le> (a::int)"
  shows "- a \<le> a div d"
proof (cases "0 < d")
  case True
  then have "0 \<le> a div d" using assms by (simp add: pos_imp_zdiv_nonneg_iff)
  then show ?thesis using assms by linarith
next
  case False
  then have d: "0 < - d" using assms by simp
  show ?thesis
  proof (cases "a = 0")
    case True
    then show ?thesis by simp
  next
    case False
    then have "- a < 0" using assms by simp
    from zdiv_mono2_neg [OF this, of 1 "- d"] d
    have "- a \<le> (- a) div (- d)" by simp
    then show ?thesis by simp
  qed
qed

lemma floordiv_upper:
  assumes "d \<noteq> 0" "0 \<le> (a::int)"
  shows "a div d \<le> a"
proof (cases "0 < d")
  case True
  from zdiv_mono2 [OF assms(2), of 1 d] True show ?thesis by simp
next
  case False
  then have "d < 0" using assms by simp
  then have "a div d \<le> 0" using assms by (simp add: div_nonneg_neg_le0)
  then show ?thesis using assms by linarith
qed

lemma div_in_int64:
  assumes "d \<noteq> 0" "int i < 2 ^ 63"
  shows "in_int64 (int i div d)"
  using floordiv_lower [OF assms(1), of "int i"] floordiv_upper [OF assms(1), of "int i"] assms(2)
  by (simp add: in_int64_def)


lemma np_array_int_ints:
  "\<forall>(i, l) \<in> set evs. in_int64 i \<and> in_int64 l \<Longrightarrow>
   np_array_int (map (\<lambda>(i, l). (i, PyInt l)) evs) = Inr evs"
  by (induction evs) (auto simp: int64_of_int_def)

lemma in_set_enumerateD:
  "(j, v) \<in> set (enumerate k xs) \<Longrightarrow> v \<in> set xs \<and> j < k + length xs"
  by (auto simp: enumerate_eq_zip dest: set_zip_rightD set_zip_leftD)

lemma events_index_in_int64:
  assumes "df \<noteq> 0" "int (k + length markers) \<le> 2 ^ 63" "(i, l) \<in> set (spec_events df emp lbl k markers)"
  shows "in_int64 i"
proof -
  from assms(3) obtain j v where jv: "(j, v) \<in> set (enumerate k markers)" "i = int j div df"
    by (auto simp: spec_events_def)
  then have "j < k + length markers" by (auto dest: in_set_enumerateD)
  then have "int j < 2 ^ 63" using assms(2) by linarith
  then show ?thesis using jv div_in_int64 [OF assms(1)] by simp
qed

lemma events_label:
  assumes "(i, l) \<in> set (spec_events df emp lbl k markers)"
  shows "\<exists>v \<in> set markers. v \<noteq> emp \<and> l = lbl v"
  using assms by (auto simp: spec_events_def dest: in_set_enumerateD)

lemma events_PyInt:
  assumes "\<forall>v \<in> set markers. v \<noteq> emp \<longrightarrow> m v \<noteq> None"
  shows "spec_events df emp (\<lambda>v. the (map_option PyInt (m v))) k markers =
         map (\<lambda>(i, l). (i, PyInt l)) (spec_events df emp (\<lambda>v. the (m v)) k markers)"
  using assms by (auto simp: spec_events_def dest: in_set_enumerateD)

lemma markers_record_events:
  assumes lm: "labels_mapping t = map_option PyInt \<circ> m"
    and df: "decimation_factor t \<noteq> 0"
    and len: "int (length markers) \<le> 2 ^ 63"
    and cov: "\<forall>v \<in> set markers. v \<noteq> empty_label t \<longrightarrow> (\<exists>l. m v = Some l \<and> in_int64 l)"
  shows "markers_record t markers =
         Inr (spec_events (decimation_factor t) (empty_label t) (\<lambda>v. the (m v)) 0 markers)"
proof -
  let ?evs = "spec_events (decimation_factor t) (empty_label t) (\<lambda>v. the (m v)) 0 markers"
  have mapped: "\<forall>v \<in> set markers. v \<noteq> empty_label t \<longrightarrow> m v \<noteq> None"
    using cov by auto
  then have "\<forall>v \<in> set markers. v \<noteq> empty_label t \<longrightarrow> labels_mapping t v \<noteq> None"
    by (simp add: lm)
  from scan_markers_events [OF df this, of 0 "[]"]
  have scan: "scan_markers t 0 markers [] = Inr (map (\<lambda>(i, l). (i, PyInt l)) ?evs)"
    using events_PyInt [OF mapped] by (simp add: lm)
  have "\<forall>(i, l) \<in> set ?evs. in_int64 i \<and> in_int64 l"
  proof (clarify, rule conjI)
    fix i l assume il: "(i, l) \<in> set ?evs"
    show "in_int64 i" using events_index_in_int64 [OF df _ il] len by simp
    from events_label [OF il] cov show "in_int64 l" by auto
  qed
  from np_array_int_ints [OF this] scan show ?thesis
    by (simp add: markers_record_def)
qed

lemma markers_loop_all:
  "\<forall>markers \<in> set batch. markers_record t markers = Inr (f markers) \<Longrightarrow>
   markers_loop t batch res = Inr (res @ map f batch)"
  by (induction batch arbitrary: res) auto

lemma scan_markers_unmapped_fails:
  "v \<in> set markers \<Longrightarrow> v \<noteq> empty_label t \<Longrightarrow> labels_mapping t v = None \<Longrightarrow>
   \<exists>e. scan_markers t k markers acc = Inl e"
  by (induction markers arbitrary: k acc) (auto split: option.splits)

lemma scan_markers_unmapped_KeyError:
  "decimation_factor t \<noteq> 0 \<Longrightarrow>
   v \<in> set markers \<Longrightarrow> v \<noteq> empty_label t \<Longrightarrow> labels_mapping t v = None \<Longrightarrow>
   scan_markers t k markers acc = Inl KeyError"
  by (induction markers arbitrary: k acc) (auto split: option.splits)

lemma markers_loop_unmapped_fails:
  "markers \<in> set batch \<Longrightarrow> v \<in> set markers \<Longrightarrow> v \<noteq> empty_label t \<Longrightarrow>
   labels_mapping t v = None \<Longrightarrow> \<exists>e. markers_loop t batch res = Inl e"
proof (induction batch arbitrary: res)
  case Nil
  then show ?case by simp
next
  case (Cons r batch)
  show ?case
  proof (cases "markers_record t r")
    case (Inl e)
    then show ?thesis by simp
  next
    case (Inr arr)
    have "markers \<noteq> r"
    proof
      assume "markers = r"
      with scan_markers_unmapped_fails [OF Cons.prems(2,3,4), of 0 "[]"] Inr
      show False by (auto simp: markers_record_def)
    qed
    with Cons.prems have "markers \<in> set batch" by simp
    from Cons.IH [OF this Cons.prems(2,3,4)] Inr show ?thesis by simp
  qed
qed

lemma markers_loop_unmapped_KeyError:
  assumes lm: "labels_mapping t = map_option PyInt \<circ> m"
    and df: "decimation_factor t \<noteq> 0"
    and ran: "\<forall>l \<in> ran m. in_int64 l"
  shows "\<forall>r \<in> set batch. int (length r) \<le> 2 ^ 63 \<Longrightarrow>
         markers \<in> set batch \<Longrightarrow> v \<in> set markers \<Longrightarrow> v \<noteq> empty_label t \<Longrightarrow>
         m v = None \<Longrightarrow> markers_loop t batch res = Inl KeyError"
proof (induction batch arbitrary: res)
  case Nil
  then show ?case by simp
next
  case (Cons r batch)
  show ?case
  proof (cases "\<exists>w \<in> set r. w \<noteq> empty_label t \<and> m w = None")
    case True
    then obtain w where w: "w \<in> set r" "w \<noteq> empty_label t" "labels_mapping t w = None"
      by (auto simp: lm)
    from scan_markers_unmapped_KeyError [OF df w, of 0 "[]"] show ?thesis
      by (simp add: markers_record_def)
  next
    case False
    then have cov: "\<forall>w \<in> set r. w \<noteq> empty_label t \<longrightarrow> (\<exists>l. m w = Some l \<and> in_int64 l)"
      using ran by (auto simp: ran_def)
    have len: "int (length r) \<le> 2 ^ 63" using Cons.prems(1) by simp
    note rec = markers_record_events [OF lm df len cov]
    have "markers \<noteq> r" using False Cons.prems(3,4,5) by auto
    with Cons.prems have "markers \<in> set batch" by simp
    from Cons.IH [OF _ this Cons.prems(3,4,5)] Cons.prems(1) rec show ?thesis by simp
  qed
qed

section \<open>MarkersTransformer: the claims\<close>

text \<open>
  C2 (as stated, refuted). With \<open>labels_mapping = {2: "A", 1: "B"}\<close>, \<open>empty_label = 0\<close> and
  \<open>decimation_factor = 1\<close> the scan of \<open>[0,0,2,0,1,0]\<close> collects the pairs (2, "A") and
  (4, "B"), and the conversion of that list to an integer array raises ValueError: the call
  returns no batch.
\<close>

theorem C2_string_labels_counterexample:
  "scan_markers
     \<lparr>labels_mapping = [2 \<mapsto> PyStr ''A'', 1 \<mapsto> PyStr ''B''], decimation_factor = 1, empty_label = 0\<rparr>
     0 [0, 0, 2, 0, 1, 0] [] = Inr [(2, PyStr ''A''), (4, PyStr ''B'')]
   \<and> MarkersTransformer_transform
     \<lparr>labels_mapping = [2 \<mapsto> PyStr ''A'', 1 \<mapsto> PyStr ''B''], decimation_factor = 1, empty_label = 0\<rparr>
     [[0, 0, 2, 0, 1, 0]] = Inl ValueError"
  by (simp add: MarkersTransformer_transform_def markers_record_def int64_of_int_def in_int64_def
      py_int_of_str_def py_strip_def py_isspace_def digit_val_def)

text \<open>
  C2 (amended). With integer labels \<open>a\<close> and \<open>b\<close> that fit 64 bits,
  \<open>labels_mapping = {2: a, 1: b}\<close>, \<open>empty_label = 0\<close> and \<open>decimation_factor = 1\<close>, the
  one-record batch \<open>[[0,0,2,0,1,0]]\<close> is transformed to the batch whose single record is
  \<open>[(2, a), (4, b)]\<close>.
\<close>

theorem C2_integer_labels:
  assumes "in_int64 a" and "in_int64 b"
  shows "MarkersTransformer_transform
           \<lparr>labels_mapping = [2 \<mapsto> PyInt a, 1 \<mapsto> PyInt b], decimation_factor = 1, empty_label = 0\<rparr>
           [[0, 0, 2, 0, 1, 0]] = Inr [[(2, a), (4, b)]]"
  using assms
  by (simp add: MarkersTransformer_transform_def markers_record_def int64_of_int_def in_int64_def)

theorem C2_integer_labels_witness:
  "in_int64 10 \<and> in_int64 20 \<and>
   MarkersTransformer_transform
     \<lparr>labels_mapping = [2 \<mapsto> PyInt 10, 1 \<mapsto> PyInt 20], decimation_factor = 1, empty_label = 0\<rparr>
     [[0, 0, 2, 0, 1, 0]] = Inr [[(2, 10), (4, 20)]]"
proof -
  have a: "in_int64 10" and b: "in_int64 20" by (simp_all add: in_int64_def)
  from C2_integer_labels [OF a b] a b show ?thesis by simp
qed

text \<open>
  C4 (as stated, refuted). With \<open>decimation_factor = 2\<close> and the labels "A" and "B" the
  record \<open>[0,0,2,0,1,0]\<close> gives no output record: the conversion to an integer array raises
  ValueError.
\<close>

theorem C4_string_labels_counterexample:
  "MarkersTransformer_transform
     \<lparr>labels_mapping = [2 \<mapsto> PyStr ''A'', 1 \<mapsto> PyStr ''B''], decimation_factor = 2, empty_label = 0\<rparr>
     [[0, 0, 2, 0, 1, 0]] = Inl ValueError"
  by (simp add: MarkersTransformer_transform_def markers_record_def int64_of_int_def in_int64_def
      py_int_of_str_def py_strip_def py_isspace_def digit_val_def)

text \<open>
  C4 (amended). For a transformer with a nonzero decimation factor whose labels are
  integers (\<open>m\<close> is the mapping, every label stored as a Python integer), and a batch in
  which every record has at most \<open>2^63\<close> samples and every sample that differs from the empty
  label is mapped to a label that fits 64 bits: the output has one record per input record,
  in order, and each is the event list of its input record, one pair
  \<open>(index div decimation_factor, m value)\<close> per sample that differs from the empty label,
  none for the others, in the original sample order.
\<close>

theorem C4_transform_events:
  assumes lm: "labels_mapping t = map_option PyInt \<circ> m"
    and df: "decimation_factor t \<noteq> 0"
    and cov: "\<forall>markers \<in> set batch. int (length markers) \<le> 2 ^ 63 \<and>
                (\<forall>v \<in> set markers. v \<noteq> empty_label t \<longrightarrow> (\<exists>l. m v = Some l \<and> in_int64 l))"
  shows "MarkersTransformer_transform t batch =
         Inr (map (spec_events (decimation_factor t) (empty_label t) (\<lambda>v. the (m v)) 0) batch)"
proof -
  have "\<forall>markers \<in> set batch. markers_record t markers =
          Inr (spec_events (decimation_factor t) (empty_label t) (\<lambda>v. the (m v)) 0 markers)"
    using markers_record_events [OF lm df] cov by blast
  from markers_loop_all [OF this, of "[]"] show ?thesis
    by (simp add: MarkersTransformer_transform_def)
qed

theorem C4_transform_events_witness:
  "MarkersTransformer_transform
     \<lparr>labels_mapping = map_option PyInt \<circ> [2 \<mapsto> 10, 1 \<mapsto> 20], decimation_factor = 2, empty_label = 0\<rparr>
     [[0, 0, 2, 0, 1, 0]] = Inr [[(1, 10), (2, 20)]]"
proof -
  let ?t = "\<lparr>labels_mapping = map_option PyInt \<circ> [2 \<mapsto> 10, 1 \<mapsto> (20::int)],
             decimation_factor = 2, empty_label = 0\<rparr>"
  have lm: "labels_mapping ?t = map_option PyInt \<circ> [2 \<mapsto> 10, 1 \<mapsto> (20::int)]" by simp
  have df: "decimation_factor ?t \<noteq> 0" by simp
  have cov: "\<forall>markers \<in> set [[0, 0, 2, 0, 1, 0]]. int (length markers) \<le> 2 ^ 63 \<and>
               (\<forall>v \<in> set markers. v \<noteq> empty_label ?t \<longrightarrow>
                  (\<exists>l. [2 \<mapsto> 10, 1 \<mapsto> (20::int)] v = Some l \<and> in_int64 l))"
    by (simp add: in_int64_def)
  from C4_transform_events [OF lm df cov] show ?thesis
    by (simp add: spec_events_def enumerate_eq_zip upt_rec)
qed

text \<open>
  C5 (as stated, refuted). With the labels "A" and "B" and \<open>decimation_factor = 1\<close>, the batch
  \<open>[[2, 0], [0, 7]]\<close> holds the unmapped value 7 in its second record, and the call fails with
  ValueError, raised by the conversion of the first record, not with the lookup error.
\<close>

theorem C5_not_lookup_error_counterexample:
  "MarkersTransformer_transform
     \<lparr>labels_mapping = [2 \<mapsto> PyStr ''A'', 1 \<mapsto> PyStr ''B''], decimation_factor = 1, empty_label = 0\<rparr>
     [[2, 0], [0, 7]] = Inl ValueError
   \<and> ValueError \<noteq> KeyError"
  by (simp add: MarkersTransformer_transform_def markers_record_def int64_of_int_def in_int64_def
      py_int_of_str_def py_strip_def py_isspace_def digit_val_def)

text \<open>
  C5 (amended). If some record of the batch holds a value that differs from the empty label
  and is not a key of the mapping, the call fails: it returns no batch, so the value is
  neither dropped nor given a default label. The failure is the lookup error (KeyError)
  whenever the decimation factor is nonzero, all labels of the mapping are integers that fit
  64 bits and no record has more than \<open>2^63\<close> samples.
\<close>

theorem C5_unmapped_value_fails:
  assumes rec: "markers \<in> set batch"
    and v: "v \<in> set markers" "v \<noteq> empty_label t" "labels_mapping t v = None"
  shows "(\<exists>e. MarkersTransformer_transform t batch = Inl e) \<and>
         (decimation_factor t \<noteq> 0 \<and> labels_mapping t = map_option PyInt \<circ> m \<and>
          (\<forall>l \<in> ran m. in_int64 l) \<and> (\<forall>r \<in> set batch. int (length r) \<le> 2 ^ 63)
          \<longrightarrow> MarkersTransformer_transform t batch = Inl KeyError)"
proof (rule conjI)
  show "\<exists>e. MarkersTransformer_transform t batch = Inl e"
    using markers_loop_unmapped_fails [OF rec v] by (simp add: MarkersTransformer_transform_def)
next
  show "decimation_factor t \<noteq> 0 \<and> labels_mapping t = map_option PyInt \<circ> m \<and>
        (\<forall>l \<in> ran m. in_int64 l) \<and> (\<forall>r \<in> set batch. int (length r) \<le> 2 ^ 63)
        \<longrightarrow> MarkersTransformer_transform t batch = Inl KeyError"
  proof (intro impI, elim conjE)
    assume df: "decimation_factor t \<noteq> 0" and lm: "labels_mapping t = map_option PyInt \<circ> m"
      and ran: "\<forall>l \<in> ran m. in_int64 l" and len: "\<forall>r \<in> set batch. int (length r) \<le> 2 ^ 63"
    from v(3) lm have "m v = None" by simp
    from markers_loop_unmapped_KeyError [OF lm df ran len rec v(1,2) this]
    show "MarkersTransformer_transform t batch = Inl KeyError"
      by (simp add: MarkersTransformer_transform_def)
  qed
qed

theorem C5_unmapped_value_fails_witness:
  "MarkersTransformer_transform
     \<lparr>labels_mapping = map_option PyInt \<circ> [2 \<mapsto> 10, 1 \<mapsto> 20], decimation_factor = 1, empty_label = 0\<rparr>
     [[2, 0, 0], [0, 7, 1]] = Inl KeyError"
proof -
  let ?m = "[(2::int) \<mapsto> (10::int), 1 \<mapsto> 20]"
  let ?t = "\<lparr>labels_mapping = map_option PyInt \<circ> ?m, decimation_factor = 1, empty_label = 0\<rparr>"
  have rec: "[0, 7, 1] \<in> set [[2, 0, 0], [0, 7, 1::int]]" by simp
  have v: "(7::int) \<in> set [0, 7, 1]" "7 \<noteq> empty_label ?t" "labels_mapping ?t 7 = None" by simp_all
  from C5_unmapped_value_fails [OF rec v, of ?m] show ?thesis by (simp add: in_int64_def)
qed

section \<open>ChannellwiseScaler: fitting and transforming\<close>

lemma fit_loop_append:
  "fit_loop sc (xs @ ys) =
     (case fit_loop sc xs of
        (Inl e, sc') \<Rightarrow> (Inl e, sc')
      | (Inr u, sc') \<Rightarrow> fit_loop sc' ys)"
  by (induction xs arbitrary: sc) (auto split: prod.splits sum.splits)



text \<open>
  A scaler that refuses one-dimensional input, as the library's input check does, makes
  \<open>transform\<close> fail on every two-dimensional batch that has a row.
\<close>

lemma transform_single_record_fails:
  assumes "\<forall>s xs. fst (scaler_transform (scaler self) s (Arr1 xs)) = Inl ValueError"
    and "channels \<noteq> []"
  shows "fst (ChannellwiseScaler_transform self (single_record dt channels)) = Inl ValueError"
proof -
  obtain c rest where ch: "channels = c # rest" using assms(2) by (cases channels) auto
  obtain r s' where call: "scaler_transform (scaler self) (state (scaler self)) (Arr1 c) = (r, s')"
    by (cases "scaler_transform (scaler self) (state (scaler self)) (Arr1 c)")
  with assms(1) have "r = Inl ValueError" by (metis fst_conv)
  with call ch show ?thesis
    by (simp add: ChannellwiseScaler_transform_def single_record_def)
qed


section \<open>ChannellwiseScaler: the claims\<close>

text \<open>
  C1 (the code fails on the single-record form). A \<open>MinMaxScaler\<close> is fitted on the batch
  of one record \<open>[[1,2,3],[4,5,6]]\<close> (two channels, three samples). Given that record alone
  as a two-dimensional batch, \<open>transform\<close> iterates over its rows, hands the first row, a
  one-dimensional array, to the scaler, and the scaler raises ValueError. Given the same
  record in a batch of records, \<open>transform\<close> returns a batch of the same form and shape.
\<close>

theorem C1_single_record_raises:
  "fst (ChannellwiseScaler_transform
          (snd (ChannellwiseScaler_fit \<lparr>scaler = MinMaxScaler\<rparr>
                  (many_records Float64 [[[1, 2, 3], [4, 5, 6]]])))
          (single_record Float64 [[1, 2, 3], [4, 5, 6]])) = Inl ValueError
   \<and> fst (ChannellwiseScaler_transform
          (snd (ChannellwiseScaler_fit \<lparr>scaler = MinMaxScaler\<rparr>
                  (many_records Float64 [[[1, 2, 3], [4, 5, 6]]])))
          (many_records Float64 [[[1, 2, 3], [4, 5, 6]]]))
       = Inr (many_records Float64 [[[0, 1 / 2, 1], [0, 1 / 2, 1]]])"
  by (simp add: ChannellwiseScaler_fit_def ChannellwiseScaler_transform_def many_records_def
      single_record_def MinMaxScaler_def minmax_partial_fit_def minmax_transform_def
      transpose_rows_def column_min_def column_max_def upt_rec setitem_def minmax_scale_def)

text \<open>
  C7. A fit on the concatenation of two batches is a fit on the first followed, unless the
  first raised, by a fit on the second, which starts from the scaler the first left: the
  outcome and the object after the calls are the same, for every wrapped scaler. A fit
  that returns gives back the object itself, as the calls left it.
\<close>

theorem C7_fit_accumulates:
  "ChannellwiseScaler_fit self (concatenate b1 b2) =
     (case ChannellwiseScaler_fit self b1 of
        (Inl e, self1) \<Rightarrow> (Inl e, self1)
      | (Inr r, self1) \<Rightarrow> ChannellwiseScaler_fit self1 b2)
   \<and> (\<forall>r. fst (ChannellwiseScaler_fit self b1) = Inr r \<longrightarrow> r = snd (ChannellwiseScaler_fit self b1))"
  by (auto simp: ChannellwiseScaler_fit_def concatenate_def fit_loop_append
      split: prod.splits sum.splits)

theorem C7_fit_accumulates_witness:
  "state (scaler (snd (ChannellwiseScaler_fit
      (snd (ChannellwiseScaler_fit \<lparr>scaler = MinMaxScaler\<rparr> (many_records Float64 [[[1, 2], [5, 4]]])))
      (many_records Float64 [[[0, 3], [6, 7]]])))) = Some ([0, 4], [3, 7])
   \<and> snd (ChannellwiseScaler_fit \<lparr>scaler = MinMaxScaler\<rparr>
            (concatenate (many_records Float64 [[[1, 2], [5, 4]]]) (many_records Float64 [[[0, 3], [6, 7]]])))
     = snd (ChannellwiseScaler_fit
         (snd (ChannellwiseScaler_fit \<lparr>scaler = MinMaxScaler\<rparr> (many_records Float64 [[[1, 2], [5, 4]]])))
         (many_records Float64 [[[0, 3], [6, 7]]]))
   \<and> fst (ChannellwiseScaler_fit \<lparr>scaler = MinMaxScaler\<rparr> (many_records Float64 [[[1, 2], [5, 4]]]))
     = Inr (snd (ChannellwiseScaler_fit \<lparr>scaler = MinMaxScaler\<rparr> (many_records Float64 [[[1, 2], [5, 4]]])))"
  using C7_fit_accumulates [of "\<lparr>scaler = MinMaxScaler\<rparr>" "many_records Float64 [[[1, 2], [5, 4]]]"
      "many_records Float64 [[[0, 3], [6, 7]]]"]
  by (simp add: ChannellwiseScaler_fit_def concatenate_def many_records_def MinMaxScaler_def
      minmax_partial_fit_def transpose_rows_def column_min_def column_max_def upt_rec)

section \<open>ButterFilter and Decimator: lengths\<close>



subsection \<open>The concrete library behaves as asked\<close>





subsection \<open>Comprehensions and slice assignment\<close>








section \<open>ButterFilter and Decimator: the claims\<close>










section \<open>What the calls leave unchanged\<close>











section \<open>The element type of the output\<close>








end
